theory Spec2Isabelle
  imports Complex_Main
begin

section \<open>Values the relay handles\<close>

text \<open>
  The signaling relay of \<^verbatim>\<open>main.ts\<close>: rooms are created over HTTP, one host (role
  \<^verbatim>\<open>server\<close>) and any number of guests (role \<^verbatim>\<open>client\<close>) join a room over
  WebSocket, and the Room forwards the messages of the guests to the host and those of
  the host to the guest they name. The relay is embedded as functions on an explicit
  state; what it does to sockets and to the console is returned as a list of effects.

  A WebSocket object is known to the relay only by its identity; a connection is a
  number, the order in which the platform created the sockets. A Room object is held by
  reference (the registry and the closures of its sockets share it), so the registry
  stores the position of the Room in a list of all Room objects ever constructed.
\<close>

type_synonym conn = nat
type_synonym room_ref = nat

text \<open>
  What \<^verbatim>\<open>JSON.parse\<close> returns. An object is the list of its own properties in
  enumeration order (the keys of a JavaScript object are pairwise different); a number is
  read as the real it denotes, so both zeros are \<open>0\<close>; one element of a string stands
  for one code unit.
\<close>

datatype json =
    JNull
  | JBool bool
  | JNum real
  | JStr string
  | JArr "json list"
  | JObj "(string \<times> json) list"

text \<open>JavaScript truthiness, as the test \<^verbatim>\<open>if (message.clientID)\<close> applies it.\<close>

fun truthy :: "json \<Rightarrow> bool" where
  "truthy JNull = False"
| "truthy (JBool b) = b"
| "truthy (JNum x) = (x \<noteq> 0)"
| "truthy (JStr s) = (s \<noteq> [])"
| "truthy (JArr xs) = True"
| "truthy (JObj kvs) = True"

text \<open>
  \<^verbatim>\<open>Map.prototype.set\<close> and the assignment of a property in an object literal: an
  existing key keeps its position and takes the new value, a new key goes last.
  \<^verbatim>\<open>Map.prototype.delete\<close> removes the entry of the key.
\<close>

fun map_set :: "'k \<Rightarrow> 'v \<Rightarrow> ('k \<times> 'v) list \<Rightarrow> ('k \<times> 'v) list" where
  "map_set k v [] = [(k, v)]"
| "map_set k v ((k', v') # kvs) =
     (if k' = k then (k, v) # kvs else (k', v') # map_set k v kvs)"

definition map_delete :: "'k \<Rightarrow> ('k \<times> 'v) list \<Rightarrow> ('k \<times> 'v) list" where
  "map_delete k kvs = filter (\<lambda>p. fst p \<noteq> k) kvs"

text \<open>The decimal name of an array index, as a property key.\<close>

definition digit10 :: "nat \<Rightarrow> char" where
  "digit10 d = char_of (48 + d)"

fun index_key :: "nat \<Rightarrow> string" where
  "index_key n = (if n < 10 then [digit10 n] else index_key (n div 10) @ [digit10 (n mod 10)])"

text \<open>
  The own enumerable properties that the spread \<^verbatim>\<open>{...message}\<close> copies: those of
  an object; the elements of an array and the code units of a string under their
  indices; none for \<^verbatim>\<open>null\<close>, a boolean or a number.
\<close>

fun spread :: "json \<Rightarrow> (string \<times> json) list" where
  "spread (JObj kvs) = kvs"
| "spread (JArr xs) = zip (map index_key [0..<length xs]) xs"
| "spread (JStr s) = zip (map index_key [0..<length s]) (map (\<lambda>c. JStr [c]) s)"
| "spread JNull = []"
| "spread (JBool b) = []"
| "spread (JNum x) = []"

text \<open>
  The property read \<^verbatim>\<open>message.clientID\<close> on a value other than \<^verbatim>\<open>null\<close>
  (\<open>None\<close> is \<^verbatim>\<open>undefined\<close>): only an object can own the property; on
  \<^verbatim>\<open>null\<close> the read throws, which the caller handles before.
\<close>

fun get_clientID :: "json \<Rightarrow> json option" where
  "get_clientID (JObj kvs) = map_of kvs ''clientID''"
| "get_clientID v = None"

text \<open>
  Whether the conversion to a string in a template literal \<^verbatim>\<open>`${clientId}`\<close> throws
  a TypeError. For an object the conversion calls \<^verbatim>\<open>toString\<close>: the inherited one
  answers, an own property of that name (a parsed value, never a function) hides it, and
  the inherited \<^verbatim>\<open>valueOf\<close> returns the object itself, so no primitive is found. An
  array joins the conversions of its elements, \<^verbatim>\<open>null\<close> counting as the empty string.
\<close>

fun toString_throws :: "json \<Rightarrow> bool" where
  "toString_throws (JObj kvs) = (map_of kvs ''toString'' \<noteq> None)"
| "toString_throws (JArr xs) = list_ex toString_throws xs"
| "toString_throws JNull = False"
| "toString_throws (JBool b) = False"
| "toString_throws (JNum x) = False"
| "toString_throws (JStr s) = False"

section \<open>Effects\<close>

datatype js_error = SyntaxError | TypeError

datatype log_line =
    Initialized
  | Rejected_server_conn
  | Registered_server_conn
  | Error_from_server js_error
  | Server_conn_closed
  | Registered_client_conn string
  | Error_from_client string js_error
  | Client_conn_closed string
  | Unknown_client json
  | No_server_conn string
  | Created_room string
  | Adding_conn string string

text \<open>
  What a handler does to the outside, in the order it does it: \<open>Send ws v\<close> is
  \<^verbatim>\<open>ws.send(JSON.stringify(v))\<close>, \<open>Close ws\<close> is \<^verbatim>\<open>ws.close()\<close>; a console
  line carries the tag in its square brackets. The connection is the abstract channel of
  the specification, with the capabilities send and close: a send or a close is recorded
  and does not throw. When the platform accepts a send on a given socket is not decided
  by \<^verbatim>\<open>main.ts\<close>.
\<close>

datatype effect =
    Send conn json
  | Close conn
  | Console_log string log_line
  | Console_error string log_line

fun is_console :: "effect \<Rightarrow> bool" where
  "is_console (Console_log t l) = True"
| "is_console (Console_error t l) = True"
| "is_console e = False"

section \<open>The Room\<close>

record Room =
  room_id :: string
  serverConn :: "conn option"
  clientConns :: "(string \<times> conn) list"

definition tag :: "Room \<Rightarrow> string" where
  "tag r = take 6 (room_id r)"

definition Room_new :: "string \<Rightarrow> Room \<times> effect list" where
  "Room_new i =
     (\<lparr>room_id = i, serverConn = None, clientConns = []\<rparr>,
      [Console_log (take 6 i) Initialized])"

text \<open>The closures a socket carries once a Room has taken it.\<close>

datatype wiring = Server_handlers | Client_handlers string

definition server_conn_exists :: json where
  "server_conn_exists =
     JObj [(''type'', JStr ''error''), (''data'', JStr ''server conn already exists'')]"

definition handleServerConn :: "Room \<Rightarrow> conn \<Rightarrow> Room \<times> effect list \<times> wiring option" where
  "handleServerConn r ws =
     (case serverConn r of
        Some s \<Rightarrow>
          (r, [Console_log (tag r) Rejected_server_conn, Send ws server_conn_exists, Close ws],
           None)
      | None \<Rightarrow>
          (r\<lparr>serverConn := Some ws\<rparr>, [Console_log (tag r) Registered_server_conn],
           Some Server_handlers))"

text \<open>\<open>clientId\<close> is the value \<^verbatim>\<open>crypto.randomUUID()\<close> returned.\<close>

definition handleClientConn :: "Room \<Rightarrow> string \<Rightarrow> conn \<Rightarrow> Room \<times> effect list \<times> wiring option" where
  "handleClientConn r clientId ws =
     (r\<lparr>clientConns := map_set clientId ws (clientConns r)\<rparr>,
      [Console_log (tag r) (Registered_client_conn clientId)],
      Some (Client_handlers clientId))"

text \<open>
  \<^verbatim>\<open>this.clientConns.get(clientId)\<close>: the keys of the map are strings, so a value of
  another type finds nothing.
\<close>

fun clientConns_get :: "Room \<Rightarrow> json \<Rightarrow> conn option" where
  "clientConns_get r (JStr s) = map_of (clientConns r) s"
| "clientConns_get r v = None"

text \<open>
  The line for an unknown client prints \<open>clientId\<close> in a template literal; where that
  conversion throws, nothing is printed and the TypeError leaves the function (\<open>Inl\<close>).
\<close>

definition sendMessageToClient :: "Room \<Rightarrow> json \<Rightarrow> json \<Rightarrow> js_error + effect list" where
  "sendMessageToClient r clientId message =
     (case clientConns_get r clientId of
        None \<Rightarrow>
          if toString_throws clientId then Inl TypeError
          else Inr [Console_log (tag r) (Unknown_client clientId)]
      | Some clientWs \<Rightarrow> Inr [Send clientWs message])"

definition sendMessageToServer :: "Room \<Rightarrow> string \<Rightarrow> json \<Rightarrow> effect list" where
  "sendMessageToServer r clientId message =
     (case serverConn r of
        None \<Rightarrow> [Console_log (tag r) (No_server_conn clientId)]
      | Some s \<Rightarrow> [Send s (JObj (map_set ''clientID'' (JStr clientId) (spread message)))])"

text \<open>
  The four closures. \<open>JSON_parse\<close> is the platform's parser on the data of the event,
  \<open>None\<close> where it throws. Whatever is thrown inside \<^verbatim>\<open>try\<close> ends in the
  \<^verbatim>\<open>console.error\<close> of the \<^verbatim>\<open>catch\<close>.
\<close>

definition server_onmessage :: "('d \<Rightarrow> json option) \<Rightarrow> Room \<Rightarrow> 'd \<Rightarrow> Room \<times> effect list" where
  "server_onmessage JSON_parse r d =
     (case JSON_parse d of
        None \<Rightarrow> (r, [Console_error (tag r) (Error_from_server SyntaxError)])
      | Some JNull \<Rightarrow> (r, [Console_error (tag r) (Error_from_server TypeError)])
      | Some message \<Rightarrow>
          (case get_clientID message of
             None \<Rightarrow> (r, [])
           | Some c \<Rightarrow>
               if truthy c then
                 (case sendMessageToClient r c message of
                    Inl e \<Rightarrow> (r, [Console_error (tag r) (Error_from_server e)])
                  | Inr out \<Rightarrow> (r, out))
               else (r, [])))"

definition server_onclose :: "Room \<Rightarrow> Room \<times> effect list" where
  "server_onclose r =
     (r\<lparr>serverConn := None, clientConns := []\<rparr>,
      Console_log (tag r) Server_conn_closed # map (\<lambda>p. Close (snd p)) (clientConns r))"

definition client_onmessage ::
  "('d \<Rightarrow> json option) \<Rightarrow> string \<Rightarrow> Room \<Rightarrow> 'd \<Rightarrow> Room \<times> effect list" where
  "client_onmessage JSON_parse clientId r d =
     (case JSON_parse d of
        None \<Rightarrow> (r, [Console_error (tag r) (Error_from_client clientId SyntaxError)])
      | Some message \<Rightarrow> (r, sendMessageToServer r clientId message))"

definition client_onclose :: "string \<Rightarrow> Room \<Rightarrow> Room \<times> effect list" where
  "client_onclose clientId r =
     (r\<lparr>clientConns := map_delete clientId (clientConns r)\<rparr>,
      [Console_log (tag r) (Client_conn_closed clientId)])"

section \<open>The registry, the requests and the events\<close>

text \<open>
  The process: the registry \<^verbatim>\<open>rooms\<close> (room id to Room object), every Room object
  constructed so far, the closures installed on each socket together with the Room they
  capture, the number of sockets the platform has created, and everything done to the
  outside so far.
\<close>

record world =
  rooms :: "(string \<times> room_ref) list"
  heap :: "Room list"
  handlers :: "conn \<Rightarrow> (room_ref \<times> wiring) option"
  sockets :: nat
  effects :: "effect list"

definition world0 :: world where
  "world0 = \<lparr>rooms = [], heap = [], handlers = (\<lambda>c. None), sockets = 0, effects = []\<rparr>"

datatype response = Response (body: string) (status: nat)

record request =
  req_method :: string
  req_pathname :: string
  room_id_param :: "string option"
  role_param :: "string option"
  upgradable :: bool

text \<open>\<open>roomId\<close> is the value \<^verbatim>\<open>crypto.randomUUID()\<close> returned.\<close>

definition handleCreateRoom :: "world \<Rightarrow> string \<Rightarrow> world \<times> response" where
  "handleCreateRoom w roomId =
     (case Room_new roomId of
        (room, out) \<Rightarrow>
          (w\<lparr>heap := heap w @ [room],
             rooms := map_set roomId (length (heap w)) (rooms w),
             effects := effects w @ out @ [Console_log ''Server'' (Created_room roomId)]\<rparr>,
           Response roomId 200))"

text \<open>
  A missing query parameter is \<open>None\<close>; the test \<^verbatim>\<open>!roomId || !role\<close> refuses an
  empty one as well. \<^verbatim>\<open>Deno.upgradeWebSocket\<close> throws on a request that does not ask
  for the upgrade (\<open>upgradable\<close>), the server then answers 500; otherwise it creates the
  next socket. \<open>clientId\<close> is the identifier drawn if the role is the client's. A
  reference of the registry always points to a constructed Room (\<open>refs_valid\<close> below),
  the test on it only keeps the model total.
\<close>

definition handleWebSocket :: "world \<Rightarrow> request \<Rightarrow> string \<Rightarrow> world \<times> response" where
  "handleWebSocket w req clientId =
     (case (room_id_param req, role_param req) of
        (Some roomId, Some role) \<Rightarrow>
          if roomId = [] \<or> role = [] then
            (w, Response (''Missing '' @ [CHR 0x27] @ ''room-id'' @ [CHR 0x27] @ '' or '' @
                          [CHR 0x27] @ ''role'' @ [CHR 0x27] @ '' query parameters'') 400)
          else if role \<noteq> ''client'' \<and> role \<noteq> ''server'' then
            (w, Response (''Role must be '' @ [CHR 0x27] @ ''client'' @ [CHR 0x27] @ '' or '' @
                          [CHR 0x27] @ ''server'' @ [CHR 0x27]) 400)
          else
            (case map_of (rooms w) roomId of
               None \<Rightarrow>
                 (w, Response (''Room with ID '' @ [CHR 0x27] @ roomId @ [CHR 0x27] @
                               '' not found'') 404)
             | Some ref \<Rightarrow>
                 if \<not> upgradable req \<or> \<not> ref < length (heap w) then
                   (w, Response ''Internal Server Error'' 500)
                 else
                   (case (if role = ''client''
                          then handleClientConn (heap w ! ref) clientId (sockets w)
                          else handleServerConn (heap w ! ref) (sockets w)) of
                      (room, out, wr) \<Rightarrow>
                        (w\<lparr>sockets := Suc (sockets w),
                           heap := (heap w)[ref := room],
                           handlers :=
                             (case wr of
                                None \<Rightarrow> handlers w
                              | Some h \<Rightarrow> (handlers w)(sockets w \<mapsto> (ref, h))),
                           effects :=
                             effects w @
                             Console_log ''Server'' (Adding_conn role (tag (heap w ! ref))) # out\<rparr>,
                         Response [] 101)))
      | _ \<Rightarrow>
          (w, Response (''Missing '' @ [CHR 0x27] @ ''room-id'' @ [CHR 0x27] @ '' or '' @
                        [CHR 0x27] @ ''role'' @ [CHR 0x27] @ '' query parameters'') 400))"

text \<open>The handler given to \<^verbatim>\<open>Deno.serve\<close>; \<open>uuid\<close> is the identifier the request draws, if any.\<close>

definition serve :: "world \<Rightarrow> request \<Rightarrow> string \<Rightarrow> world \<times> response" where
  "serve w req uuid =
     (if req_method req = ''POST'' \<and> req_pathname req = ''/rooms'' then handleCreateRoom w uuid
      else if req_method req = ''GET'' \<and> req_pathname req = ''/ws'' then handleWebSocket w req uuid
      else (w, Response ''Not Found'' 404))"

text \<open>A closure runs on the Room it captured and on nothing else.\<close>

definition in_room :: "world \<Rightarrow> room_ref \<Rightarrow> (Room \<Rightarrow> Room \<times> effect list) \<Rightarrow> world" where
  "in_room w ref f =
     (if ref < length (heap w) then
        (case f (heap w ! ref) of
           (room, out) \<Rightarrow> w\<lparr>heap := (heap w)[ref := room], effects := effects w @ out\<rparr>)
      else w)"

text \<open>
  What can happen to the process: a request, a message event or a close event on a
  socket. An event on a socket without closures does nothing.
\<close>

datatype 'd event = Http request string | Message conn 'd | Closed conn

fun step :: "('d \<Rightarrow> json option) \<Rightarrow> world \<Rightarrow> 'd event \<Rightarrow> world" where
  "step JSON_parse w (Http req uuid) = fst (serve w req uuid)"
| "step JSON_parse w (Message ws d) =
     (case handlers w ws of
        None \<Rightarrow> w
      | Some (ref, Server_handlers) \<Rightarrow> in_room w ref (\<lambda>r. server_onmessage JSON_parse r d)
      | Some (ref, Client_handlers clientId) \<Rightarrow>
          in_room w ref (\<lambda>r. client_onmessage JSON_parse clientId r d))"
| "step JSON_parse w (Closed ws) =
     (case handlers w ws of
        None \<Rightarrow> w
      | Some (ref, Server_handlers) \<Rightarrow> in_room w ref server_onclose
      | Some (ref, Client_handlers clientId) \<Rightarrow> in_room w ref (client_onclose clientId))"

fun run :: "('d \<Rightarrow> json option) \<Rightarrow> world \<Rightarrow> 'd event list \<Rightarrow> world" where
  "run JSON_parse w [] = w"
| "run JSON_parse w (e # es) = run JSON_parse (step JSON_parse w e) es"

text \<open>A sequence of calls of \<open>handleCreateRoom\<close>, with the identifiers they answer.\<close>

fun create_rooms :: "world \<Rightarrow> string list \<Rightarrow> world \<times> string list" where
  "create_rooms w [] = (w, [])"
| "create_rooms w (u # us) =
     (case handleCreateRoom w u of
        (w', resp) \<Rightarrow> (case create_rooms w' us of (w'', ids) \<Rightarrow> (w'', body resp # ids)))"

text \<open>
  The invariant of the process: a socket the platform has not created yet carries no
  closure, and every reference held by a closure or by the registry points to a
  constructed Room.
\<close>

definition wf_world :: "world \<Rightarrow> bool" where
  "wf_world w \<longleftrightarrow>
     (\<forall>c. sockets w \<le> c \<longrightarrow> handlers w c = None) \<and>
     (\<forall>c ref h. handlers w c = Some (ref, h) \<longrightarrow> ref < length (heap w)) \<and>
     (\<forall>k ref. map_of (rooms w) k = Some ref \<longrightarrow> ref < length (heap w))"

text \<open>Two requests, used in the examples below.\<close>

definition post_rooms :: request where
  "post_rooms =
     \<lparr>req_method = ''POST'', req_pathname = ''/rooms'', room_id_param = None,
      role_param = None, upgradable = False\<rparr>"

definition get_ws :: "string \<Rightarrow> string \<Rightarrow> request" where
  "get_ws roomId role =
     \<lparr>req_method = ''GET'', req_pathname = ''/ws'', room_id_param = Some roomId,
      role_param = Some role, upgradable = True\<rparr>"

section \<open>Properties of the maps\<close>

lemma map_of_map_set: "map_of (map_set k v kvs) = (map_of kvs)(k \<mapsto> v)"
  by (induction kvs) (auto simp: fun_eq_iff)

lemma keys_map_set: "fst ` set (map_set k v kvs) = insert k (fst ` set kvs)"
  by (induction kvs) force+

lemma map_of_map_delete: "map_of (map_delete k kvs) = (map_of kvs)(k := None)"
  by (induction kvs) (auto simp: map_delete_def fun_eq_iff)

lemma map_delete_twice: "map_delete k (map_delete k kvs) = map_delete k kvs"
  by (simp add: map_delete_def)

lemma map_delete_absent: "map_of kvs k = None \<Longrightarrow> map_delete k kvs = kvs"
  by (induction kvs) (auto simp: map_delete_def split: if_splits)

section \<open>Properties of the process\<close>

lemma in_room_fields [simp]:
  "rooms (in_room w ref f) = rooms w"
  "handlers (in_room w ref f) = handlers w"
  "sockets (in_room w ref f) = sockets w"
  "length (heap (in_room w ref f)) = length (heap w)"
  by (simp_all add: in_room_def split: prod.splits)

lemma handleCreateRoom_fields [simp]:
  "rooms (fst (handleCreateRoom w u)) = map_set u (length (heap w)) (rooms w)"
  "handlers (fst (handleCreateRoom w u)) = handlers w"
  "sockets (fst (handleCreateRoom w u)) = sockets w"
  "length (heap (fst (handleCreateRoom w u))) = Suc (length (heap w))"
  "body (snd (handleCreateRoom w u)) = u"
  by (simp_all add: handleCreateRoom_def Room_new_def)

lemma handleWebSocket_rooms [simp]: "rooms (fst (handleWebSocket w req u)) = rooms w"
  by (simp add: handleWebSocket_def split: option.splits prod.splits)

lemma handleWebSocket_heap [simp]: "length (heap (fst (handleWebSocket w req u))) = length (heap w)"
  by (simp add: handleWebSocket_def split: option.splits prod.splits)

lemma handleWebSocket_sockets: "sockets w \<le> sockets (fst (handleWebSocket w req u))"
  by (simp add: handleWebSocket_def split: option.splits prod.splits)

lemma handleWebSocket_handlers_old:
  "c \<noteq> sockets w \<Longrightarrow> handlers (fst (handleWebSocket w req u)) c = handlers w c"
  by (simp add: handleWebSocket_def split: option.splits prod.splits)

lemma handleWebSocket_handlers_new:
  "handlers (fst (handleWebSocket w req u)) c = Some (ref, h) \<Longrightarrow> handlers w c \<noteq> Some (ref, h)
    \<Longrightarrow> c = sockets w \<and> ref < length (heap w) \<and> sockets (fst (handleWebSocket w req u)) = Suc (sockets w)"
  by (auto simp: handleWebSocket_def split: option.splits prod.splits if_splits)

lemma step_sockets: "sockets w \<le> sockets (step P w e)"
  by (cases e) (auto simp: serve_def handleWebSocket_sockets split: option.splits prod.splits wiring.splits)

lemma step_handlers_old: "c < sockets w \<Longrightarrow> handlers (step P w e) c = handlers w c"
  by (cases e) (auto simp: serve_def handleWebSocket_handlers_old split: option.splits prod.splits wiring.splits)

lemma step_keys: "fst ` set (rooms w) \<subseteq> fst ` set (rooms (step P w e))"
  by (cases e) (auto simp: serve_def keys_map_set split: option.splits prod.splits wiring.splits)

lemma run_sockets: "sockets w \<le> sockets (run P w es)"
  by (induction es arbitrary: w) (auto intro: order_trans [OF step_sockets])

lemma run_handlers_old: "c < sockets w \<Longrightarrow> handlers (run P w es) c = handlers w c"
proof (induction es arbitrary: w)
  case Nil
  then show ?case by simp
next
  case (Cons e es)
  from Cons.prems have "c < sockets (step P w e)"
    using step_sockets [of w P e] by simp
  with Cons show ?case by (simp add: step_handlers_old)
qed

lemma run_keys: "fst ` set (rooms w) \<subseteq> fst ` set (rooms (run P w es))"
proof (induction es arbitrary: w)
  case Nil
  then show ?case by simp
next
  case (Cons e es)
  show ?case using step_keys [of w P e] Cons [of "step P w e"] by auto
qed

lemma wf_world0: "wf_world world0"
  by (simp add: wf_world_def world0_def)

lemma wf_handleCreateRoom: "wf_world w \<Longrightarrow> wf_world (fst (handleCreateRoom w u))"
  by (auto simp: wf_world_def map_of_map_set less_Suc_eq split: if_splits)

lemma wf_handleWebSocket:
  assumes "wf_world w"
  shows "wf_world (fst (handleWebSocket w req u))"
proof -
  let ?w = "fst (handleWebSocket w req u)"
  have a: "handlers ?w c = None" if c: "sockets ?w \<le> c" for c
  proof (rule ccontr)
    assume "handlers ?w c \<noteq> None"
    then obtain ref h where s: "handlers ?w c = Some (ref, h)" by auto
    have "sockets w \<le> c" using c handleWebSocket_sockets [of w req u] by simp
    then have "handlers w c = None" using assms by (simp add: wf_world_def)
    with s handleWebSocket_handlers_new [of w req u c ref h] c show False by simp
  qed
  have b: "ref < length (heap w)" if s: "handlers ?w c = Some (ref, h)" for c ref h
  proof (cases "handlers w c = Some (ref, h)")
    case True
    then show ?thesis using assms by (auto simp: wf_world_def)
  next
    case False
    with s handleWebSocket_handlers_new [of w req u c ref h] show ?thesis by simp
  qed
  from a b assms show ?thesis
    by (auto simp: wf_world_def)
qed

lemma wf_in_room: "wf_world w \<Longrightarrow> wf_world (in_room w ref f)"
  by (auto simp: wf_world_def)

lemma wf_step: "wf_world w \<Longrightarrow> wf_world (step P w e)"
  by (cases e)
    (auto simp: serve_def wf_handleCreateRoom wf_handleWebSocket wf_in_room
          split: option.splits prod.splits wiring.splits)

lemma wf_run: "wf_world w \<Longrightarrow> wf_world (run P w es)"
  by (induction es arbitrary: w) (auto simp: wf_step)

lemma refs_valid:
  "map_of (rooms (run P world0 es)) k = Some ref \<Longrightarrow> ref < length (heap (run P world0 es))"
  using wf_run [OF wf_world0, of P es] by (auto simp: wf_world_def)

lemma in_room_unchanged:
  "(\<And>r. fst (f r) = r) \<Longrightarrow> list_all is_console (snd (f (heap w ! ref))) \<Longrightarrow>
   \<exists>out. in_room w ref f = w\<lparr>effects := effects w @ out\<rparr> \<and> list_all is_console out"
proof (cases "ref < length (heap w)")
  case True
  assume f: "\<And>r. fst (f r) = r" and c: "list_all is_console (snd (f (heap w ! ref)))"
  obtain r' out where e: "f (heap w ! ref) = (r', out)" by (cases "f (heap w ! ref)")
  with f [of "heap w ! ref"] have "r' = heap w ! ref" by simp
  with e c True show ?thesis by (intro exI [of _ out]) (simp add: in_room_def)
next
  case False
  then show ?thesis by (intro exI [of _ "[]"]) (simp add: in_room_def)
qed

lemma create_rooms_Cons:
  "fst (create_rooms w (u # us)) = fst (create_rooms (fst (handleCreateRoom w u)) us)"
  "snd (create_rooms w (u # us)) =
     body (snd (handleCreateRoom w u)) # snd (create_rooms (fst (handleCreateRoom w u)) us)"
  by (cases "handleCreateRoom w u"; cases "create_rooms (fst (handleCreateRoom w u)) us";
      simp del: handleCreateRoom_fields)+

lemma create_rooms_ids: "snd (create_rooms w us) = us"
  by (induction us arbitrary: w) (simp_all add: create_rooms_Cons del: create_rooms.simps(2))

lemma create_rooms_keys: "fst ` set (rooms (fst (create_rooms w us))) = fst ` set (rooms w) \<union> set us"
proof (induction us arbitrary: w)
  case Nil
  then show ?case by simp
next
  case (Cons u us)
  from Cons [of "fst (handleCreateRoom w u)"] show ?case
    by (simp add: create_rooms_Cons keys_map_set del: create_rooms.simps(2))
qed

section \<open>Properties of the relay\<close>

text \<open>
  C1: a parsable message of guest \<open>G\<close>, while a host is attached, makes the Room send exactly one
  envelope, to the host and to no other connection: the object holding the own properties
  of the parsed payload with \<open>clientID\<close> set to \<open>G\<close>, whatever the payload said there;
  the Room is left as it was.
\<close>

theorem guest_message_forwarded:
  assumes "JSON_parse d = Some m" and "serverConn r = Some h"
  shows "client_onmessage JSON_parse G r d =
           (r, [Send h (JObj (map_set ''clientID'' (JStr G) (spread m)))])
       \<and> map_of (map_set ''clientID'' (JStr G) (spread m)) = (map_of (spread m))(''clientID'' \<mapsto> JStr G)
       \<and> get_clientID (JObj (map_set ''clientID'' (JStr G) (spread m))) = Some (JStr G)
       \<and> (\<forall>kvs. m = JObj kvs \<longrightarrow>
             client_onmessage JSON_parse G r d = (r, [Send h (JObj (map_set ''clientID'' (JStr G) kvs))]))"
  using assms
  by (simp add: client_onmessage_def sendMessageToServer_def map_of_map_set)

theorem guest_message_forwarded_witness:
  "client_onmessage id ''g1''
     \<lparr>room_id = ''room-1'', serverConn = Some 0, clientConns = [(''g1'', 1), (''g2'', 2)]\<rparr>
     (Some (JObj [(''foo'', JNum 1), (''clientID'', JStr ''g2'')]))
   = (\<lparr>room_id = ''room-1'', serverConn = Some 0, clientConns = [(''g1'', 1), (''g2'', 2)]\<rparr>,
      [Send 0 (JObj [(''foo'', JNum 1), (''clientID'', JStr ''g1'')])])"
  using guest_message_forwarded [of id "Some (JObj [(''foo'', JNum 1), (''clientID'', JStr ''g2'')])"
      "JObj [(''foo'', JNum 1), (''clientID'', JStr ''g2'')]"
      "\<lparr>room_id = ''room-1'', serverConn = Some 0, clientConns = [(''g1'', 1), (''g2'', 2)]\<rparr>" 0 "''g1''"]
  by simp


text \<open>
  C2: a parsable host message whose \<open>clientID\<close> is the identifier \<open>G\<close> (identifiers come
  from \<^verbatim>\<open>crypto.randomUUID\<close> and are not empty) is sent unchanged to the connection of
  \<open>G\<close> and to nobody else when \<open>G\<close> is in the guest map; when it is not, nothing is
  sent to anybody, the host included, and the condition goes to the console.
\<close>

theorem host_message_routed:
  assumes "JSON_parse d = Some m" and "get_clientID m = Some (JStr G)" and "G \<noteq> []"
  shows "(\<forall>ws. map_of (clientConns r) G = Some ws \<longrightarrow>
            server_onmessage JSON_parse r d = (r, [Send ws m]))
       \<and> (map_of (clientConns r) G = None \<longrightarrow>
            server_onmessage JSON_parse r d = (r, [Console_log (tag r) (Unknown_client (JStr G))]))"
  using assms
  by (cases m) (simp_all add: server_onmessage_def sendMessageToClient_def)

theorem host_message_routed_witness:
  "server_onmessage id
     \<lparr>room_id = ''room-1'', serverConn = Some 0, clientConns = [(''g1'', 1), (''g2'', 2)]\<rparr>
     (Some (JObj [(''foo'', JNum 2), (''clientID'', JStr ''g2'')]))
   = (\<lparr>room_id = ''room-1'', serverConn = Some 0, clientConns = [(''g1'', 1), (''g2'', 2)]\<rparr>,
      [Send 2 (JObj [(''foo'', JNum 2), (''clientID'', JStr ''g2'')])])
 \<and> server_onmessage id
     \<lparr>room_id = ''room-1'', serverConn = Some 0, clientConns = [(''g1'', 1)]\<rparr>
     (Some (JObj [(''foo'', JNum 2), (''clientID'', JStr ''g2'')]))
   = (\<lparr>room_id = ''room-1'', serverConn = Some 0, clientConns = [(''g1'', 1)]\<rparr>,
      [Console_log ''room-1'' (Unknown_client (JStr ''g2''))])"
  using host_message_routed [of id "Some (JObj [(''foo'', JNum 2), (''clientID'', JStr ''g2'')])"
      "JObj [(''foo'', JNum 2), (''clientID'', JStr ''g2'')]" "''g2''"
      "\<lparr>room_id = ''room-1'', serverConn = Some 0, clientConns = [(''g1'', 1), (''g2'', 2)]\<rparr>"]
    host_message_routed [of id "Some (JObj [(''foo'', JNum 2), (''clientID'', JStr ''g2'')])"
      "JObj [(''foo'', JNum 2), (''clientID'', JStr ''g2'')]" "''g2''"
      "\<lparr>room_id = ''room-1'', serverConn = Some 0, clientConns = [(''g1'', 1)]\<rparr>"]
  by (simp add: tag_def)





text \<open>
  C4: when the host connection closes, the host slot is cleared, every connection of the
  guest map is closed (in the order of the map) and the guest map becomes empty.
\<close>

theorem host_close_cascade:
  "serverConn (fst (server_onclose r)) = None
 \<and> clientConns (fst (server_onclose r)) = []
 \<and> room_id (fst (server_onclose r)) = room_id r
 \<and> (\<forall>p \<in> set (clientConns r). Close (snd p) \<in> set (snd (server_onclose r)))
 \<and> filter (\<lambda>e. \<not> is_console e) (snd (server_onclose r)) = map (\<lambda>p. Close (snd p)) (clientConns r)"
  by (simp add: server_onclose_def filter_map o_def)

theorem host_close_cascade_witness:
  "server_onclose \<lparr>room_id = ''room-1'', serverConn = Some 0, clientConns = [(''g1'', 1), (''g2'', 2)]\<rparr>
   = (\<lparr>room_id = ''room-1'', serverConn = None, clientConns = []\<rparr>,
      [Console_log ''room-1'' Server_conn_closed, Close 1, Close 2])"
  using host_close_cascade
    [of "\<lparr>room_id = ''room-1'', serverConn = Some 0, clientConns = [(''g1'', 1), (''g2'', 2)]\<rparr>"]
  by (simp add: server_onclose_def tag_def)


text \<open>
  C5: an unroutable message leaves the Room as it was and sends nothing to anybody. A
  guest message while no host is attached is reported on the console, and so is a host
  envelope naming a guest that is not in the map: by the line for an unknown client, or,
  where the target cannot be printed in that line, by the error line of the
  \<^verbatim>\<open>catch\<close>. A host envelope without a target identifier is dropped without any
  console line, as the example after the theorem shows; only the envelope \<^verbatim>\<open>null\<close>,
  on which reading the field throws, ends in the error line.
\<close>

theorem unroutable_dropped:
  "(\<forall>m. JSON_parse d = Some m \<and> m \<noteq> JNull \<and> get_clientID m = None \<longrightarrow>
      server_onmessage JSON_parse r d = (r, []))
 \<and> (JSON_parse d = Some JNull \<longrightarrow>
      server_onmessage JSON_parse r d = (r, [Console_error (tag r) (Error_from_server TypeError)]))
 \<and> (\<forall>m v. JSON_parse d = Some m \<and> get_clientID m = Some v \<and> truthy v \<and> clientConns_get r v = None \<longrightarrow>
      server_onmessage JSON_parse r d =
        (r, [if toString_throws v then Console_error (tag r) (Error_from_server TypeError)
             else Console_log (tag r) (Unknown_client v)]))
 \<and> (\<forall>m. JSON_parse d = Some m \<and> serverConn r = None \<longrightarrow>
      client_onmessage JSON_parse g r d = (r, [Console_log (tag r) (No_server_conn g)]))"
proof (intro conjI allI impI)
  fix m assume "JSON_parse d = Some m \<and> m \<noteq> JNull \<and> get_clientID m = None"
  then show "server_onmessage JSON_parse r d = (r, [])"
    by (cases m) (simp_all add: server_onmessage_def)
next
  assume "JSON_parse d = Some JNull"
  then show "server_onmessage JSON_parse r d = (r, [Console_error (tag r) (Error_from_server TypeError)])"
    by (simp add: server_onmessage_def)
next
  fix m v
  assume "JSON_parse d = Some m \<and> get_clientID m = Some v \<and> truthy v \<and> clientConns_get r v = None"
  then show "server_onmessage JSON_parse r d =
        (r, [if toString_throws v then Console_error (tag r) (Error_from_server TypeError)
             else Console_log (tag r) (Unknown_client v)])"
    by (cases m) (simp_all add: server_onmessage_def sendMessageToClient_def)
next
  fix m assume "JSON_parse d = Some m \<and> serverConn r = None"
  then show "client_onmessage JSON_parse g r d = (r, [Console_log (tag r) (No_server_conn g)])"
    by (simp add: client_onmessage_def sendMessageToServer_def)
qed

theorem unroutable_dropped_witness:
  "server_onmessage id
     \<lparr>room_id = ''room-1'', serverConn = Some 0, clientConns = [(''g1'', 1)]\<rparr>
     (Some (JObj [(''foo'', JNum 2)]))
   = (\<lparr>room_id = ''room-1'', serverConn = Some 0, clientConns = [(''g1'', 1)]\<rparr>, [])
 \<and> server_onmessage id
     \<lparr>room_id = ''room-1'', serverConn = Some 0, clientConns = [(''g1'', 1)]\<rparr>
     (Some JNull)
   = (\<lparr>room_id = ''room-1'', serverConn = Some 0, clientConns = [(''g1'', 1)]\<rparr>,
      [Console_error ''room-1'' (Error_from_server TypeError)])
 \<and> server_onmessage id
     \<lparr>room_id = ''room-1'', serverConn = Some 0, clientConns = [(''g1'', 1)]\<rparr>
     (Some (JObj [(''foo'', JNum 2), (''clientID'', JStr ''g2'')]))
   = (\<lparr>room_id = ''room-1'', serverConn = Some 0, clientConns = [(''g1'', 1)]\<rparr>,
      [Console_log ''room-1'' (Unknown_client (JStr ''g2''))])
 \<and> server_onmessage id
     \<lparr>room_id = ''room-1'', serverConn = Some 0, clientConns = [(''g1'', 1)]\<rparr>
     (Some (JObj [(''clientID'', JObj [(''toString'', JStr ''x'')])]))
   = (\<lparr>room_id = ''room-1'', serverConn = Some 0, clientConns = [(''g1'', 1)]\<rparr>,
      [Console_error ''room-1'' (Error_from_server TypeError)])
 \<and> server_onmessage id
     \<lparr>room_id = ''room-1'', serverConn = Some 0, clientConns = [(''g1'', 1)]\<rparr>
     (Some (JObj [(''clientID'', JArr [JNull, JObj [(''toString'', JStr ''x'')]])]))
   = (\<lparr>room_id = ''room-1'', serverConn = Some 0, clientConns = [(''g1'', 1)]\<rparr>,
      [Console_error ''room-1'' (Error_from_server TypeError)])
 \<and> server_onmessage id
     \<lparr>room_id = ''room-1'', serverConn = Some 0, clientConns = [(''g1'', 1)]\<rparr>
     (Some (JObj [(''clientID'', JArr [JNull, JNum 7])]))
   = (\<lparr>room_id = ''room-1'', serverConn = Some 0, clientConns = [(''g1'', 1)]\<rparr>,
      [Console_log ''room-1'' (Unknown_client (JArr [JNull, JNum 7]))])
 \<and> client_onmessage id ''g1''
     \<lparr>room_id = ''room-1'', serverConn = None, clientConns = [(''g1'', 1)]\<rparr>
     (Some (JObj [(''foo'', JNum 1)]))
   = (\<lparr>room_id = ''room-1'', serverConn = None, clientConns = [(''g1'', 1)]\<rparr>,
      [Console_log ''room-1'' (No_server_conn ''g1'')])"
  using unroutable_dropped [of id "Some (JObj [(''foo'', JNum 2)])"
      "\<lparr>room_id = ''room-1'', serverConn = Some 0, clientConns = [(''g1'', 1)]\<rparr>" "''g1''"]
    unroutable_dropped [of id "Some JNull"
      "\<lparr>room_id = ''room-1'', serverConn = Some 0, clientConns = [(''g1'', 1)]\<rparr>" "''g1''"]
    unroutable_dropped [of id "Some (JObj [(''foo'', JNum 2), (''clientID'', JStr ''g2'')])"
      "\<lparr>room_id = ''room-1'', serverConn = Some 0, clientConns = [(''g1'', 1)]\<rparr>" "''g1''"]
    unroutable_dropped [of id "Some (JObj [(''clientID'', JObj [(''toString'', JStr ''x'')])])"
      "\<lparr>room_id = ''room-1'', serverConn = Some 0, clientConns = [(''g1'', 1)]\<rparr>" "''g1''"]
    unroutable_dropped [of id
      "Some (JObj [(''clientID'', JArr [JNull, JObj [(''toString'', JStr ''x'')]])])"
      "\<lparr>room_id = ''room-1'', serverConn = Some 0, clientConns = [(''g1'', 1)]\<rparr>" "''g1''"]
    unroutable_dropped [of id "Some (JObj [(''clientID'', JArr [JNull, JNum 7])])"
      "\<lparr>room_id = ''room-1'', serverConn = Some 0, clientConns = [(''g1'', 1)]\<rparr>" "''g1''"]
    unroutable_dropped [of id "Some (JObj [(''foo'', JNum 1)])"
      "\<lparr>room_id = ''room-1'', serverConn = None, clientConns = [(''g1'', 1)]\<rparr>" "''g1''"]
  by (simp add: tag_def)

theorem missing_target_not_logged:
  "\<not> list_ex is_console (snd (server_onmessage id
     \<lparr>room_id = ''room-1'', serverConn = Some 0, clientConns = [(''g1'', 1)]\<rparr>
     (Some (JObj [(''foo'', JNum 2)]))))"
  by (simp add: server_onmessage_def)






text \<open>
  C7: a message that does not parse, on the socket of a host or of a guest, is dropped
  and reported on the console; the Room, the registry, the closures of every socket and
  the sockets stay as they were, and nothing is sent or closed.
\<close>

theorem unparsable_dropped:
  assumes "JSON_parse d = None"
  shows "server_onmessage JSON_parse r d = (r, [Console_error (tag r) (Error_from_server SyntaxError)])
       \<and> client_onmessage JSON_parse g r d = (r, [Console_error (tag r) (Error_from_client g SyntaxError)])
       \<and> (\<exists>out. step JSON_parse w (Message c d) = w\<lparr>effects := effects w @ out\<rparr>
                \<and> list_all is_console out)"
proof (intro conjI)
  show s: "server_onmessage JSON_parse r d = (r, [Console_error (tag r) (Error_from_server SyntaxError)])"
    using assms by (simp add: server_onmessage_def)
  show c: "client_onmessage JSON_parse g r d = (r, [Console_error (tag r) (Error_from_client g SyntaxError)])"
    using assms by (simp add: client_onmessage_def)
  show "\<exists>out. step JSON_parse w (Message c d) = w\<lparr>effects := effects w @ out\<rparr> \<and> list_all is_console out"
  proof (cases "handlers w c")
    case None
    then show ?thesis by (intro exI [of _ "[]"]) simp
  next
    case (Some a)
    obtain ref h where a: "a = (ref, h)" by (cases a)
    show ?thesis
    proof (cases h)
      case Server_handlers
      have "\<exists>out. in_room w ref (\<lambda>r. server_onmessage JSON_parse r d) = w\<lparr>effects := effects w @ out\<rparr>
               \<and> list_all is_console out"
        using assms by (intro in_room_unchanged) (simp_all add: server_onmessage_def)
      with Some a Server_handlers show ?thesis by simp
    next
      case (Client_handlers k)
      have "\<exists>out. in_room w ref (\<lambda>r. client_onmessage JSON_parse k r d) = w\<lparr>effects := effects w @ out\<rparr>
               \<and> list_all is_console out"
        using assms by (intro in_room_unchanged) (simp_all add: client_onmessage_def)
      with Some a Client_handlers show ?thesis by simp
    qed
  qed
qed

theorem unparsable_dropped_witness:
  "server_onmessage id
     \<lparr>room_id = ''room-1'', serverConn = Some 0, clientConns = [(''g1'', 1)]\<rparr> None
   = (\<lparr>room_id = ''room-1'', serverConn = Some 0, clientConns = [(''g1'', 1)]\<rparr>,
      [Console_error ''room-1'' (Error_from_server SyntaxError)])
 \<and> client_onmessage id ''g1''
     \<lparr>room_id = ''room-1'', serverConn = Some 0, clientConns = [(''g1'', 1)]\<rparr> None
   = (\<lparr>room_id = ''room-1'', serverConn = Some 0, clientConns = [(''g1'', 1)]\<rparr>,
      [Console_error ''room-1'' (Error_from_client ''g1'' SyntaxError)])"
  using unparsable_dropped [of id None
      "\<lparr>room_id = ''room-1'', serverConn = Some 0, clientConns = [(''g1'', 1)]\<rparr>" "''g1''"]
  by (simp add: tag_def)


text \<open>
  C8: the close handler of guest \<open>g\<close> removes \<open>g\<close> from the guest map, is idempotent,
  changes nothing when \<open>g\<close> is not in the map, and leaves the host slot and the entry of
  every other guest as they were.
\<close>

theorem guest_close:
  "map_of (clientConns (fst (client_onclose g r))) g = None
 \<and> fst (client_onclose g (fst (client_onclose g r))) = fst (client_onclose g r)
 \<and> serverConn (fst (client_onclose g r)) = serverConn r
 \<and> room_id (fst (client_onclose g r)) = room_id r
 \<and> (\<forall>g'. g' \<noteq> g \<longrightarrow>
       map_of (clientConns (fst (client_onclose g r))) g' = map_of (clientConns r) g')
 \<and> (map_of (clientConns r) g = None \<longrightarrow> fst (client_onclose g r) = r)
 \<and> list_all is_console (snd (client_onclose g r))"
  by (simp add: client_onclose_def map_of_map_delete map_delete_twice map_delete_absent)

theorem guest_close_witness:
  "fst (client_onclose ''g1''
     \<lparr>room_id = ''room-1'', serverConn = Some 0, clientConns = [(''g1'', 1), (''g2'', 2)]\<rparr>)
   = \<lparr>room_id = ''room-1'', serverConn = Some 0, clientConns = [(''g2'', 2)]\<rparr>
 \<and> map_of (clientConns (fst (client_onclose ''g1''
     \<lparr>room_id = ''room-1'', serverConn = Some 0, clientConns = [(''g1'', 1), (''g2'', 2)]\<rparr>))) ''g2''
   = Some 2
 \<and> fst (client_onclose ''g3''
     \<lparr>room_id = ''room-1'', serverConn = Some 0, clientConns = [(''g1'', 1), (''g2'', 2)]\<rparr>)
   = \<lparr>room_id = ''room-1'', serverConn = Some 0, clientConns = [(''g1'', 1), (''g2'', 2)]\<rparr>"
  using guest_close [of "''g1''"
      "\<lparr>room_id = ''room-1'', serverConn = Some 0, clientConns = [(''g1'', 1), (''g2'', 2)]\<rparr>"]
     guest_close [of "''g3''"
      "\<lparr>room_id = ''room-1'', serverConn = Some 0, clientConns = [(''g1'', 1), (''g2'', 2)]\<rparr>"]
  by (simp add: client_onclose_def map_delete_def)


text \<open>
  C9: a host envelope whose \<open>clientID\<close> is present but is the empty string, 0, false or
  null is dropped like the same envelope without the field: no lookup, nothing sent,
  nothing on the console, the Room as it was.
\<close>

theorem falsy_target_dropped:
  assumes "JSON_parse d = Some (JObj kvs)" and "map_of kvs ''clientID'' = Some v"
    and "v \<in> {JStr [], JNum 0, JBool False, JNull}"
    and "JSON_parse d' = Some (JObj (map_delete ''clientID'' kvs))"
  shows "server_onmessage JSON_parse r d = (r, [])
       \<and> server_onmessage JSON_parse r d' = server_onmessage JSON_parse r d"
  using assms by (auto simp: server_onmessage_def map_of_map_delete)

theorem falsy_target_dropped_witness:
  "server_onmessage id
     \<lparr>room_id = ''room-1'', serverConn = Some 0, clientConns = [(''g1'', 1)]\<rparr>
     (Some (JObj [(''clientID'', JStr []), (''foo'', JNum 2)]))
   = (\<lparr>room_id = ''room-1'', serverConn = Some 0, clientConns = [(''g1'', 1)]\<rparr>, [])
  \<and> server_onmessage id
     \<lparr>room_id = ''room-1'', serverConn = Some 0, clientConns = [(''g1'', 1)]\<rparr>
     (Some (JObj [(''foo'', JNum 2)]))
   = (\<lparr>room_id = ''room-1'', serverConn = Some 0, clientConns = [(''g1'', 1)]\<rparr>, [])"
  using falsy_target_dropped [of id "Some (JObj [(''clientID'', JStr []), (''foo'', JNum 2)])"
      "[(''clientID'', JStr []), (''foo'', JNum 2)]" "JStr []" "Some (JObj [(''foo'', JNum 2)])"
      "\<lparr>room_id = ''room-1'', serverConn = Some 0, clientConns = [(''g1'', 1)]\<rparr>"]
  by (simp add: map_delete_def)


text \<open>
  C10: a host attach that is refused because the slot is occupied wires no closure on the
  refused socket and changes neither the registry nor any Room; whatever happens
  afterwards, the socket still has no closure, so a message event or the close event on
  it changes nothing at all.
\<close>

theorem rejected_host_never_wired:
  assumes "w = run JSON_parse world0 evs0"
    and "room_id_param req = Some roomId" and "roomId \<noteq> []"
    and "role_param req = Some ''server''" and "upgradable req"
    and "map_of (rooms w) roomId = Some ref" and "serverConn (heap w ! ref) = Some h"
  shows "rooms (fst (handleWebSocket w req u)) = rooms w
       \<and> heap (fst (handleWebSocket w req u)) = heap w
       \<and> handlers (fst (handleWebSocket w req u)) = handlers w
       \<and> handlers (fst (handleWebSocket w req u)) (sockets w) = None
       \<and> filter (\<lambda>e. \<not> is_console e)
            (drop (length (effects w)) (effects (fst (handleWebSocket w req u))))
           = [Send (sockets w) server_conn_exists, Close (sockets w)]
       \<and> (\<forall>evs. handlers (run JSON_parse (fst (handleWebSocket w req u)) evs) (sockets w) = None
              \<and> (\<forall>d. step JSON_parse (run JSON_parse (fst (handleWebSocket w req u)) evs)
                         (Message (sockets w) d)
                      = run JSON_parse (fst (handleWebSocket w req u)) evs)
              \<and> step JSON_parse (run JSON_parse (fst (handleWebSocket w req u)) evs)
                         (Closed (sockets w))
                      = run JSON_parse (fst (handleWebSocket w req u)) evs)"
proof -
  let ?w = "fst (handleWebSocket w req u)"
  have wf: "wf_world w" using assms(1) wf_run [OF wf_world0] by simp
  then have len: "ref < length (heap w)" using assms(6) by (auto simp: wf_world_def)
  from wf have none: "handlers w (sockets w) = None" by (simp add: wf_world_def)
  have eq: "?w = w\<lparr>sockets := Suc (sockets w),
      effects := effects w @
        [Console_log ''Server'' (Adding_conn ''server'' (tag (heap w ! ref))),
         Console_log (tag (heap w ! ref)) Rejected_server_conn,
         Send (sockets w) server_conn_exists, Close (sockets w)]\<rparr>"
    using assms(2-7) len by (simp add: handleWebSocket_def handleServerConn_def)
  have later: "handlers (run JSON_parse ?w evs) (sockets w) = None" for evs
    using run_handlers_old [of "sockets w" ?w JSON_parse evs] none by (simp add: eq)
  show ?thesis
  proof (intro conjI allI)
    show "rooms ?w = rooms w" by simp
    show "heap ?w = heap w" by (simp add: eq)
    show "handlers ?w = handlers w" by (simp add: eq)
    show "handlers ?w (sockets w) = None" using none by (simp add: eq)
    show "filter (\<lambda>e. \<not> is_console e) (drop (length (effects w)) (effects ?w))
            = [Send (sockets w) server_conn_exists, Close (sockets w)]"
      by (simp add: eq)
  next
    fix evs show "handlers (run JSON_parse ?w evs) (sockets w) = None" by (rule later)
  next
    fix evs d
    show "step JSON_parse (run JSON_parse ?w evs) (Message (sockets w) d) = run JSON_parse ?w evs"
      by (simp add: later)
  next
    fix evs
    show "step JSON_parse (run JSON_parse ?w evs) (Closed (sockets w)) = run JSON_parse ?w evs"
      by (simp add: later)
  qed
qed

theorem rejected_host_never_wired_witness:
  "serverConn (heap (run (id :: json option \<Rightarrow> json option) world0
      [Http post_rooms ''room-1'', Http (get_ws ''room-1'' ''server'') [],
       Http (get_ws ''room-1'' ''server'') [], Message 1 None, Closed 1]) ! 0) = Some 0
 \<and> handlers (run (id :: json option \<Rightarrow> json option) world0
      [Http post_rooms ''room-1'', Http (get_ws ''room-1'' ''server'') [],
       Http (get_ws ''room-1'' ''server'') [], Message 1 None, Closed 1]) 1 = None"
proof -
  define P where "P = (id :: json option \<Rightarrow> json option)"
  define req where "req = get_ws ''room-1'' ''server''"
  define w where "w = run P world0 [Http post_rooms ''room-1'', Http req []]"
  define w' where "w' = fst (handleWebSocket w req [])"
  have w: "w = \<lparr>rooms = [(''room-1'', 0)],
      heap = [\<lparr>room_id = ''room-1'', serverConn = Some 0, clientConns = []\<rparr>],
      handlers = (\<lambda>c. None)(0 \<mapsto> (0, Server_handlers)), sockets = 1,
      effects = [Console_log ''room-1'' Initialized, Console_log ''Server'' (Created_room ''room-1''),
        Console_log ''Server'' (Adding_conn ''server'' ''room-1''),
        Console_log ''room-1'' Registered_server_conn]\<rparr>"
    by (simp add: w_def req_def world0_def serve_def post_rooms_def get_ws_def handleCreateRoom_def
        Room_new_def handleWebSocket_def handleServerConn_def tag_def)
  have h2: "room_id_param req = Some ''room-1''" by (simp add: req_def get_ws_def)
  have h3: "''room-1'' \<noteq> []" by simp
  have h4: "role_param req = Some ''server''" by (simp add: req_def get_ws_def)
  have h5: "upgradable req" by (simp add: req_def get_ws_def)
  have h6: "map_of (rooms w) ''room-1'' = Some 0" by (simp add: w)
  have h7: "serverConn (heap w ! 0) = Some 0" by (simp add: w)
  have s: "sockets w = 1" by (simp add: w)
  note t = rejected_host_never_wired [OF w_def h2 h3 h4 h5 h6 h7, of "[]", folded w'_def, unfolded s]
  from t have a: "heap w' = heap w" by blast
  from t have b: "handlers (run P w' evs) 1 = None
              \<and> (\<forall>d. step P (run P w' evs) (Message 1 d) = run P w' evs)
              \<and> step P (run P w' evs) (Closed 1) = run P w' evs" for evs
    by blast
  have r: "run P world0 [Http post_rooms ''room-1'', Http req [], Http req [], Message 1 None, Closed 1]
         = step P (step P w' (Message 1 None)) (Closed 1)"
    by (simp add: w'_def w_def serve_def req_def get_ws_def)
  from b [of "[]"] have "step P w' (Message 1 None) = w'" and "step P w' (Closed 1) = w'"
    and n: "handlers w' 1 = None"
    by simp_all
  with r have "run P world0 [Http post_rooms ''room-1'', Http req [], Http req [], Message 1 None, Closed 1] = w'"
    by simp
  with a h7 n show ?thesis by (simp add: P_def req_def)
qed

end
